theory Spec2Isabelle
  imports Complex_Main
begin

section \<open>The retry controller of tenacity.py\<close>

text \<open>
  A shallow embedding of \<^verbatim>\<open>src/tenacity.py\<close>: the stop, wait and reject strategies,
  the \<^verbatim>\<open>Attempt\<close> and \<^verbatim>\<open>RetryError\<close> classes and the loop of \<^verbatim>\<open>Retrying.call\<close>.

  Conventions of the embedding.
  \<^item> Python integers are \<open>int\<close>; attempt numbers start at 1 and only grow, they are \<open>nat\<close>.
  \<^item> A strategy class with \<^verbatim>\<open>__init__(params)\<close> and \<^verbatim>\<open>__call__(args)\<close> is a curried
    function: the constructor parameters first, then the call arguments.
  \<^item> An optional argument (\<^verbatim>\<open>None\<close> or an object) is an \<open>option\<close>.
  \<^item> Everything \<^verbatim>\<open>call\<close> does to its surroundings is a field of the record \<open>world\<close>:
    the state the wrapped operation and the hooks act on, the readings the clock will
    give, the draws the random source will give, and the trace of what happened.
  \<^item> An exception leaving a function is the \<open>Inl\<close> side of a sum.
  \<^item> Python floats (the jitter, the argument of \<^verbatim>\<open>time.sleep\<close>) are exact rationals:
    every float is a rational, and rounding is not modelled.
  \<^item> A leading underscore of a Python name is dropped.
\<close>

subsection \<open>Errors, attempts and the world\<close>

text \<open>
  The built-in exceptions the module can meet: \<^verbatim>\<open>random.randint\<close> on an empty range and
  \<^verbatim>\<open>time.sleep\<close> on a negative duration raise \<^verbatim>\<open>ValueError\<close>; \<^verbatim>\<open>raise\<close> of a value
  that is no exception raises \<^verbatim>\<open>TypeError\<close>.
\<close>

datatype py_error = ValueError | TypeError

text \<open>
  What an \<^verbatim>\<open>Attempt\<close> holds in its field \<^verbatim>\<open>value\<close>: the value the operation returned
  (\<^verbatim>\<open>Attempt(fn(...), attempt_number, False)\<close>) or the captured \<^verbatim>\<open>sys.exc_info()\<close>
  (\<^verbatim>\<open>Attempt(tb, attempt_number, True)\<close>). \<^verbatim>\<open>call\<close> builds no other Attempt, so the flag
  \<^verbatim>\<open>has_exception\<close> is the tag of the union. The type \<open>'e\<close> stands for the captured
  exception with its type and traceback (an instance of \<^verbatim>\<open>Exception\<close>, which is what
  \<^verbatim>\<open>except Exception\<close> catches).
\<close>

datatype ('v, 'e) held = Returned 'v | ExcInfo 'e

datatype ('v, 'e) Attempt =
  Attempt (Attempt_value: "('v, 'e) held") (Attempt_number: nat)

definition has_exception :: "('v, 'e) Attempt \<Rightarrow> bool" where
  "has_exception a = (case Attempt_value a of ExcInfo _ \<Rightarrow> True | Returned _ \<Rightarrow> False)"

text \<open>
  What can leave \<^verbatim>\<open>call\<close> as an exception: the captured exception raised again by
  \<^verbatim>\<open>six.reraise\<close>, a \<^verbatim>\<open>RetryError\<close> with its \<^verbatim>\<open>last_attempt\<close>, or a built-in error.
\<close>

datatype ('v, 'e) raised =
  Reraise 'e
  | RetryError "('v, 'e) Attempt"
  | PyError py_error

datatype event = BeforeAttempt nat | Invoked | AfterAttempt nat | Slept rat

text \<open>
  \<open>clock\<close> lists the readings \<^verbatim>\<open>int(round(time.time() * 1000))\<close> will give, the next one
  at index 0; \<open>rng\<close> lists the draws of the random source in the same way.
\<close>

record 's world =
  op_state :: 's
  clock :: "nat \<Rightarrow> int"
  rng :: "nat \<Rightarrow> rat"
  trace :: "event list"

definition invocations :: "'s world \<Rightarrow> nat" where
  "invocations w = count_list (trace w) Invoked"

definition time_ms :: "'s world \<Rightarrow> int \<times> 's world" where
  "time_ms w = (clock w 0, w\<lparr>clock := \<lambda>n. clock w (Suc n)\<rparr>)"

text \<open>
  \<^verbatim>\<open>time.sleep(secs)\<close>: a negative duration raises (\<^verbatim>\<open>ValueError\<close> in Python 3), any
  other is recorded in the trace.
\<close>

definition time_sleep :: "rat \<Rightarrow> 's world \<Rightarrow> py_error + 's world" where
  "time_sleep secs w =
     (if secs < 0 then Inl ValueError else Inr (w\<lparr>trace := trace w @ [Slept secs]\<rparr>))"

text \<open>
  \<^verbatim>\<open>random.random()\<close> gives a number in \<open>[0, 1)\<close>: the fractional part of the next draw.
  \<^verbatim>\<open>random.randint(a, b)\<close> gives an integer of \<open>[a, b]\<close>, and raises on an empty range.
\<close>

definition random_random :: "(nat \<Rightarrow> rat) \<Rightarrow> rat \<times> (nat \<Rightarrow> rat)" where
  "random_random g = (frac (g 0), \<lambda>n. g (Suc n))"

definition random_randint ::
  "int \<Rightarrow> int \<Rightarrow> (nat \<Rightarrow> rat) \<Rightarrow> (py_error + int) \<times> (nat \<Rightarrow> rat)" where
  "random_randint a b g =
     (if a > b then (Inl ValueError, g)
      else (Inr (a + \<lfloor>frac (g 0) * of_int (b - a + 1)\<rfloor>), \<lambda>n. g (Suc n)))"

subsection \<open>Stop and wait strategies\<close>

type_synonym stop_strategy = "nat \<Rightarrow> int \<Rightarrow> bool"

type_synonym wait_strategy =
  "nat \<Rightarrow> int \<Rightarrow> (nat \<Rightarrow> rat) \<Rightarrow> (py_error + int) \<times> (nat \<Rightarrow> rat)"

text \<open>The \<^verbatim>\<open>except AttributeError\<close> branch: Python 3 has no \<^verbatim>\<open>sys.maxint\<close>.\<close>

definition MAX_WAIT :: int where
  "MAX_WAIT = 1073741823"

definition stop_after_attempt :: "int \<Rightarrow> stop_strategy" where
  "stop_after_attempt max_attempt_number previous_attempt_number delay_since_first_attempt_ms =
     (int previous_attempt_number \<ge> max_attempt_number)"

definition stop_after_delay :: "int \<Rightarrow> stop_strategy" where
  "stop_after_delay max_delay previous_attempt_number delay_since_first_attempt_ms =
     (delay_since_first_attempt_ms \<ge> max_delay)"

definition wait_fixed :: "int \<Rightarrow> wait_strategy" where
  "wait_fixed wait_ms previous_attempt_number delay_since_first_attempt_ms g = (Inr wait_ms, g)"

definition wait_none :: wait_strategy where
  "wait_none = wait_fixed 0"

definition wait_random :: "int \<Rightarrow> int \<Rightarrow> wait_strategy" where
  "wait_random wait_random_min wait_random_max previous_attempt_number delay_since_first_attempt_ms g =
     random_randint wait_random_min wait_random_max g"

definition wait_incrementing :: "int \<Rightarrow> int \<Rightarrow> int \<Rightarrow> wait_strategy" where
  "wait_incrementing start increment max_ms previous_attempt_number delay_since_first_attempt_ms g =
     (let result = start + increment * (int previous_attempt_number - 1);
          result = (if result > max_ms then max_ms else result);
          result = (if result < 0 then 0 else result)
      in (Inr result, g))"

definition EXP_BASE :: int where
  "EXP_BASE = 2"

definition wait_exponential :: "int \<Rightarrow> int \<Rightarrow> wait_strategy" where
  "wait_exponential multiplier max_ms previous_attempt_number delay_since_first_attempt_ms g =
     (let exp = EXP_BASE ^ previous_attempt_number;
          result = multiplier * exp;
          result = (if result > max_ms then max_ms else result);
          result = (if result < 0 then 0 else result)
      in (Inr result, g))"

subsection \<open>The reject strategy\<close>

definition never_reject :: "'a \<Rightarrow> bool" where
  "never_reject result = False"

definition always_reject :: "'a \<Rightarrow> bool" where
  "always_reject result = True"

text \<open>
  \<^verbatim>\<open>isinstance(exception, retryable_types)\<close> with a tuple of types holds when the exception
  is an instance of one of them; the class hierarchy is the parameter \<open>isinstance\<close>.
\<close>

definition retry_if_exception_of_type :: "('e \<Rightarrow> 't \<Rightarrow> bool) \<Rightarrow> 't list \<Rightarrow> 'e \<Rightarrow> bool" where
  "retry_if_exception_of_type isinstance retryable_types exception =
     list_ex (isinstance exception) retryable_types"

text \<open>
  \<^verbatim>\<open>_MaybeReject.__call__\<close>. The predicates are the user's functions; they are taken to
  return a truth value.
\<close>

definition MaybeReject ::
  "('e \<Rightarrow> bool) option \<Rightarrow> ('v \<Rightarrow> bool) option \<Rightarrow> ('v, 'e) Attempt \<Rightarrow> bool" where
  "MaybeReject retry_on_exception retry_on_result attempt =
     (let reject = False in
      case Attempt_value attempt of
        ExcInfo exc \<Rightarrow>
          (case retry_on_exception of
             Some p \<Rightarrow> reject \<or> p exc
           | None \<Rightarrow> reject)
      | Returned v \<Rightarrow>
          (case retry_on_result of
             Some q \<Rightarrow> reject \<or> q v
           | None \<Rightarrow> reject))"

text \<open>The argument \<^verbatim>\<open>retry_on_exception\<close> of \<^verbatim>\<open>Retrying\<close>: a tuple of types or a predicate.\<close>

datatype ('e, 't) retry_on_exception_arg =
  ExceptionTypes "'t list"
  | ExceptionPredicate "'e \<Rightarrow> bool"

definition select_reject_strategy ::
  "('e \<Rightarrow> 't \<Rightarrow> bool) \<Rightarrow> ('e, 't) retry_on_exception_arg option \<Rightarrow> ('v \<Rightarrow> bool) option
     \<Rightarrow> ('v, 'e) Attempt \<Rightarrow> bool" where
  "select_reject_strategy isinstance retry_on_exception retry_on_result =
     (let retry_on_exception' =
            (case retry_on_exception of
               None \<Rightarrow> always_reject
             | Some (ExceptionTypes ts) \<Rightarrow> retry_if_exception_of_type isinstance ts
             | Some (ExceptionPredicate p) \<Rightarrow> p);
          retry_on_result' =
            (case retry_on_result of
               None \<Rightarrow> never_reject
             | Some q \<Rightarrow> q)
      in MaybeReject (Some retry_on_exception') (Some retry_on_result'))"

subsection \<open>Attempt.get and the controller\<close>

definition Attempt_get :: "('v, 'e) Attempt \<Rightarrow> bool \<Rightarrow> ('v, 'e) raised + 'v" where
  "Attempt_get self wrap =
     (case Attempt_value self of
        ExcInfo exc \<Rightarrow> (if wrap then Inl (RetryError self) else Inl (Reraise exc))
      | Returned v \<Rightarrow> Inr v)"

text \<open>
  The fields of a \<^verbatim>\<open>Retrying\<close> object. A hook is called with the attempt number and its
  result is dropped: it acts on the state it shares with the operation.
\<close>

record ('v, 'e, 's) Retrying =
  stop :: "stop_strategy option"
  wait :: "wait_strategy option"
  should_reject :: "('v, 'e) Attempt \<Rightarrow> bool"
  wrap_exception :: bool
  before_attempts :: "(nat \<Rightarrow> 's \<Rightarrow> 's) option"
  after_attempts :: "(nat \<Rightarrow> 's \<Rightarrow> 's) option"
  wait_jitter_max :: "rat option"

text \<open>
  \<^verbatim>\<open>Retrying.__init__\<close>: the class hierarchy \<open>isinstance\<close> first, then the keyword
  arguments in the order of the source. The defaults of the source are
  \<open>Retrying_init isinstance None (Some wait_none) None None False None None None\<close>.
\<close>

definition Retrying_init ::
  "('e \<Rightarrow> 't \<Rightarrow> bool) \<Rightarrow> stop_strategy option \<Rightarrow> wait_strategy option
     \<Rightarrow> ('e, 't) retry_on_exception_arg option \<Rightarrow> ('v \<Rightarrow> bool) option \<Rightarrow> bool \<Rightarrow> rat option
     \<Rightarrow> (nat \<Rightarrow> 's \<Rightarrow> 's) option \<Rightarrow> (nat \<Rightarrow> 's \<Rightarrow> 's) option \<Rightarrow> ('v, 'e, 's) Retrying" where
  "Retrying_init isinstance stop_arg wait_arg retry_on_exception retry_on_result wrap jitter_max
       before after =
     \<lparr> stop = stop_arg,
       wait = wait_arg,
       should_reject = select_reject_strategy isinstance retry_on_exception retry_on_result,
       wrap_exception = wrap,
       before_attempts = before,
       after_attempts = after,
       wait_jitter_max = jitter_max \<rparr>"

text \<open>\<^verbatim>\<open>if self._before_attempts: self._before_attempts(attempt_number)\<close>, and the same after.\<close>

definition run_hook ::
  "(nat \<Rightarrow> 's \<Rightarrow> 's) option \<Rightarrow> (nat \<Rightarrow> event) \<Rightarrow> nat \<Rightarrow> 's world \<Rightarrow> 's world" where
  "run_hook hook ev attempt_number w =
     (case hook of
        Some h \<Rightarrow> w\<lparr>op_state := h attempt_number (op_state w),
                     trace := trace w @ [ev attempt_number]\<rparr>
      | None \<Rightarrow> w)"

text \<open>
  The \<^verbatim>\<open>try\<close> statement of the loop: the operation \<open>fn\<close> (with its arguments bound) runs
  on the state and returns a value (\<open>Inr\<close>) or raises (\<open>Inl\<close>).
\<close>

definition try_attempt ::
  "('s \<Rightarrow> ('e + 'v) \<times> 's) \<Rightarrow> nat \<Rightarrow> 's world \<Rightarrow> ('v, 'e) Attempt \<times> 's world" where
  "try_attempt fn attempt_number w =
     (let (outcome, s') = fn (op_state w);
          w' = w\<lparr>op_state := s', trace := trace w @ [Invoked]\<rparr>
      in case outcome of
           Inr v \<Rightarrow> (Attempt (Returned v) attempt_number, w')
         | Inl tb \<Rightarrow> (Attempt (ExcInfo tb) attempt_number, w'))"

text \<open>
  The value of \<^verbatim>\<open>sleep\<close> when \<^verbatim>\<open>time.sleep\<close> is reached: the wait strategy's delay (0
  without one), plus \<^verbatim>\<open>max(0, random.random() * wait_jitter_max)\<close> when
  \<^verbatim>\<open>wait_jitter_max\<close> is neither \<^verbatim>\<open>None\<close> nor zero.
\<close>

definition compute_sleep ::
  "('v, 'e, 's) Retrying \<Rightarrow> nat \<Rightarrow> int \<Rightarrow> 's world \<Rightarrow> (py_error + rat) \<times> 's world" where
  "compute_sleep self attempt_number delay_since_first_attempt_ms w =
     (case (case wait self of
              Some f \<Rightarrow> (let (res, g) = f attempt_number delay_since_first_attempt_ms (rng w)
                         in (res, w\<lparr>rng := g\<rparr>))
            | None \<Rightarrow> (Inr 0, w)) of
        (Inl err, w1) \<Rightarrow> (Inl err, w1)
      | (Inr sleep, w1) \<Rightarrow>
          (case wait_jitter_max self of
             Some j \<Rightarrow>
               (if j \<noteq> 0 then
                  (let (u, g) = random_random (rng w1);
                       jitter = u * j
                   in (Inr (of_int sleep + max 0 jitter), w1\<lparr>rng := g\<rparr>))
                else (Inr (of_int sleep), w1))
           | None \<Rightarrow> (Inr (of_int sleep), w1)))"

text \<open>
  One pass through the body of \<^verbatim>\<open>while True\<close>: \<open>Some\<close> when the pass leaves \<^verbatim>\<open>call\<close>
  (by \<^verbatim>\<open>return\<close> or by an exception), \<open>None\<close> when it reaches
  \<^verbatim>\<open>attempt_number += 1\<close>.
\<close>

definition iteration ::
  "('v, 'e, 's) Retrying \<Rightarrow> ('s \<Rightarrow> ('e + 'v) \<times> 's) \<Rightarrow> int \<Rightarrow> nat \<Rightarrow> 's world
     \<Rightarrow> (('v, 'e) raised + 'v) option \<times> 's world" where
  "iteration self fn start_time attempt_number w =
     (let w1 = run_hook (before_attempts self) BeforeAttempt attempt_number w;
          (attempt, w2) = try_attempt fn attempt_number w1
      in if \<not> should_reject self attempt then
           (Some (Attempt_get attempt (wrap_exception self)), w2)
         else
           (let w3 = run_hook (after_attempts self) AfterAttempt attempt_number w2;
                (now, w4) = time_ms w3;
                delay_since_first_attempt_ms = now - start_time
            in if (case stop self of
                     Some s \<Rightarrow> s attempt_number delay_since_first_attempt_ms
                   | None \<Rightarrow> False) then
                 (if \<not> wrap_exception self \<and> has_exception attempt then
                    (Some (case Attempt_get attempt False of
                             Inl exn \<Rightarrow> Inl exn
                           | Inr v \<Rightarrow> Inl (PyError TypeError)), w4)
                  else (Some (Inl (RetryError attempt)), w4))
               else
                 (case compute_sleep self attempt_number delay_since_first_attempt_ms w4 of
                    (Inl err, w5) \<Rightarrow> (Some (Inl (PyError err)), w5)
                  | (Inr sleep, w5) \<Rightarrow>
                      (case time_sleep (sleep / 1000) w5 of
                         Inl err \<Rightarrow> (Some (Inl (PyError err)), w5)
                       | Inr w6 \<Rightarrow> (None, w6)))))"

text \<open>
  The loop may run forever (no stop strategy and an operation that is always rejected):
  \<open>None\<close> is the run that never leaves \<^verbatim>\<open>call\<close>.
\<close>

partial_function (option) call_loop ::
  "('v, 'e, 's) Retrying \<Rightarrow> ('s \<Rightarrow> ('e + 'v) \<times> 's) \<Rightarrow> int \<Rightarrow> nat \<Rightarrow> 's world
     \<Rightarrow> ((('v, 'e) raised + 'v) \<times> 's world) option" where
  "call_loop self fn start_time attempt_number w =
     (case iteration self fn start_time attempt_number w of
        (Some res, w') \<Rightarrow> Some (res, w')
      | (None, w') \<Rightarrow> call_loop self fn start_time (attempt_number + 1) w')"

definition call ::
  "('v, 'e, 's) Retrying \<Rightarrow> ('s \<Rightarrow> ('e + 'v) \<times> 's) \<Rightarrow> 's world
     \<Rightarrow> ((('v, 'e) raised + 'v) \<times> 's world) option" where
  "call self fn w =
     (let (start_time, w0) = time_ms w
      in call_loop self fn start_time 1 w0)"

section \<open>Properties\<close>

subsection \<open>Wait strategies\<close>

lemma wait_incrementing_value:
  "wait_incrementing s i m k t g = (Inr (max 0 (min (s + i * (int k - 1)) m)), g)"
  by (simp add: wait_incrementing_def Let_def max_def min_def)

lemma wait_exponential_value:
  "wait_exponential mult m k t g = (Inr (max 0 (min (mult * 2 ^ k) m)), g)"
  by (simp add: wait_exponential_def EXP_BASE_def Let_def max_def min_def)

lemma random_randint_range:
  assumes ab: "a \<le> b"
  shows "\<exists>v. random_randint a b g = (Inr v, \<lambda>n. g (Suc n)) \<and> a \<le> v \<and> v \<le> b"
proof -
  let ?u = "frac (g 0)"
  let ?n = "of_int (b - a + 1) :: rat"
  have u0: "0 \<le> ?u" and u1: "?u < 1"
    by (simp_all add: frac_lt_1)
  have npos: "0 < ?n"
    using ab by simp
  have lo: "0 \<le> ?u * ?n"
    using u0 npos by simp
  have hi: "?u * ?n < ?n"
    using u1 npos by simp
  have f0: "0 \<le> \<lfloor>?u * ?n\<rfloor>"
    using lo by simp
  have "\<lfloor>?u * ?n\<rfloor> < b - a + 1"
    unfolding floor_less_iff using hi .
  with f0 ab show ?thesis
    by (simp add: random_randint_def)
qed

text \<open>
  C6, as the specification states it, fails: with a negative \<open>max\<close> the source clamps to
  \<open>max\<close> first and to 0 last, so \<open>wait_incrementing(start=5, increment=0, max=-1)\<close>
  returns 0 at attempt 1, where \<open>min(max(0, 5), -1)\<close> is \<open>-1\<close>.
\<close>

theorem wait_incrementing_negative_max_counterexample:
  "wait_incrementing 5 0 (- 1) 1 0 (\<lambda>n. 0) = (Inr 0, \<lambda>n. 0)
   \<and> min (max 0 (5 + 0 * (int 1 - 1))) (- 1) = (- 1 :: int)
   \<and> wait_incrementing 5 0 (- 1) 1 0 (\<lambda>n. 0) \<noteq> (Inr (min (max 0 (5 + 0 * (int 1 - 1))) (- 1)), \<lambda>n. 0)"
  by (simp add: wait_incrementing_def Let_def)

text \<open>
  C6 (amended): for all integers \<open>s\<close>, \<open>i\<close>, \<open>m\<close>, every attempt number \<open>k\<close> and every
  elapsed time, \<open>wait_incrementing(start=s, increment=i, max=m)\<close> returns
  \<open>max(0, min(s + i \<times> (k - 1), m))\<close> without raising and without a random draw; when
  \<open>m \<ge> 0\<close> this is exactly \<open>min(max(0, s + i \<times> (k - 1)), m)\<close>.
\<close>

theorem wait_incrementing_clamped:
  "wait_incrementing s i m k t g = (Inr (max 0 (min (s + i * (int k - 1)) m)), g)
   \<and> (0 \<le> m \<longrightarrow>
        wait_incrementing s i m k t g = (Inr (min (max 0 (s + i * (int k - 1))) m), g))"
  by (simp add: wait_incrementing_def Let_def max_def min_def)

theorem wait_incrementing_clamped_witness:
  "(0 :: int) \<le> 250
   \<and> wait_incrementing 0 100 250 4 7 (\<lambda>n. 0) = (Inr 250, \<lambda>n. 0)
   \<and> wait_incrementing 0 100 250 2 7 (\<lambda>n. 0) = (Inr 100, \<lambda>n. 0)"
  using wait_incrementing_clamped [of 0 100 250 4 7 "\<lambda>n. 0"]
    wait_incrementing_clamped [of 0 100 250 2 7 "\<lambda>n. 0"]
  by simp

text \<open>
  C7, as the specification states it, fails: the source clamps a negative result to 0,
  so \<open>wait_exponential(multiplier=-1, max=10)\<close> returns 0 at attempt 1, where
  \<open>min(-1 \<times> 2^1, 10)\<close> is \<open>-2\<close>.
\<close>

theorem wait_exponential_negative_counterexample:
  "wait_exponential (- 1) 10 1 0 (\<lambda>n. 0) = (Inr 0, \<lambda>n. 0)
   \<and> min ((- 1) * 2 ^ 1) 10 = (- 2 :: int)
   \<and> wait_exponential (- 1) 10 1 0 (\<lambda>n. 0) \<noteq> (Inr (min ((- 1) * 2 ^ 1) 10), \<lambda>n. 0)"
  by (simp add: wait_exponential_def EXP_BASE_def Let_def)

text \<open>
  C7 (amended): for all integers \<open>mult\<close>, \<open>m\<close>, every attempt number \<open>k\<close> and every
  elapsed time, \<open>wait_exponential(multiplier=mult, max=m)\<close> returns
  \<open>max(0, min(mult \<times> 2^k, m))\<close>, computed on unbounded integers (no overflow, no
  wrap-around, no exception, no random draw); when \<open>mult \<ge> 0\<close> and \<open>m \<ge> 0\<close> this is exactly
  \<open>min(mult \<times> 2^k, m)\<close>, which is \<open>m\<close> as soon as \<open>mult \<times> 2^k \<ge> m\<close>.
\<close>

theorem wait_exponential_clamped:
  "wait_exponential mult m k t g = (Inr (max 0 (min (mult * 2 ^ k) m)), g)
   \<and> (0 \<le> mult \<and> 0 \<le> m \<longrightarrow>
        wait_exponential mult m k t g = (Inr (min (mult * 2 ^ k) m), g))
   \<and> (0 \<le> m \<and> m \<le> mult * 2 ^ k \<longrightarrow> wait_exponential mult m k t g = (Inr m, g))"
  by (auto simp add: wait_exponential_def EXP_BASE_def Let_def max_def min_def)

theorem wait_exponential_clamped_witness:
  "(0 :: int) \<le> 3 \<and> (0 :: int) \<le> 1000
   \<and> wait_exponential 3 1000 5 0 (\<lambda>n. 0) = (Inr 96, \<lambda>n. 0)
   \<and> (1000 :: int) \<le> 3 * 2 ^ 200
   \<and> wait_exponential 3 1000 200 0 (\<lambda>n. 0) = (Inr 1000, \<lambda>n. 0)"
  using wait_exponential_clamped [of 3 1000 5 0 "\<lambda>n. 0"]
    wait_exponential_clamped [of 3 1000 200 0 "\<lambda>n. 0"]
  by simp

text \<open>
  C5, as the specification states it, fails: \<^verbatim>\<open>wait_fixed\<close> returns its duration as it
  is, and \<^verbatim>\<open>wait_random\<close> returns what \<^verbatim>\<open>random.randint\<close> gives. \<open>wait_fixed(-5)\<close>
  returns \<open>-5\<close>, and \<open>wait_random(-5, -1)\<close> returns a negative delay whatever is drawn.
\<close>

theorem wait_fixed_negative_counterexample:
  "wait_fixed (- 5) 1 0 (\<lambda>n. 0) = (Inr (- 5), \<lambda>n. 0)
   \<and> \<not> (\<exists>d. fst (wait_fixed (- 5) 1 0 (\<lambda>n. 0)) = Inr d \<and> 0 \<le> d)
   \<and> \<not> (\<exists>d. fst (wait_random (- 5) (- 1) 1 0 (\<lambda>n. 0)) = Inr d \<and> 0 \<le> d)"
  by (simp add: wait_fixed_def wait_random_def random_randint_def)

text \<open>
  C5 (amended): for every attempt number, every elapsed time and all constructor
  parameters, \<^verbatim>\<open>wait_none\<close> returns 0 and \<^verbatim>\<open>wait_incrementing\<close> and
  \<^verbatim>\<open>wait_exponential\<close> return a delay \<open>\<ge> 0\<close> (they clamp a negative result to 0).
  \<open>wait_fixed(d)\<close> returns \<open>d\<close> unchanged, so its delay is \<open>\<ge> 0\<close> exactly when \<open>d \<ge> 0\<close>.
  \<open>wait_random(lo, hi)\<close> returns an integer of \<open>[lo, hi]\<close> when \<open>lo \<le> hi\<close>, so its delay is
  \<open>\<ge> 0\<close> when \<open>0 \<le> lo \<le> hi\<close>, and raises \<^verbatim>\<open>ValueError\<close> when \<open>hi < lo\<close>.
\<close>

theorem wait_strategies_delay:
  "wait_none k t g = (Inr 0, g)
   \<and> (\<exists>d. wait_incrementing s i m k t g = (Inr d, g) \<and> 0 \<le> d)
   \<and> (\<exists>d. wait_exponential mult m k t g = (Inr d, g) \<and> 0 \<le> d)
   \<and> wait_fixed dur k t g = (Inr dur, g)
   \<and> (lo \<le> hi \<longrightarrow> (\<exists>v. fst (wait_random lo hi k t g) = Inr v \<and> lo \<le> v \<and> v \<le> hi))
   \<and> (hi < lo \<longrightarrow> fst (wait_random lo hi k t g) = Inl ValueError)"
proof -
  have none: "wait_none k t g = (Inr 0, g)"
    by (simp add: wait_none_def wait_fixed_def)
  have incr: "\<exists>d. wait_incrementing s i m k t g = (Inr d, g) \<and> 0 \<le> d"
    by (simp add: wait_incrementing_value)
  have expo: "\<exists>d. wait_exponential mult m k t g = (Inr d, g) \<and> 0 \<le> d"
    by (simp add: wait_exponential_value)
  have fixed: "wait_fixed dur k t g = (Inr dur, g)"
    by (simp add: wait_fixed_def)
  have rand: "\<exists>v. fst (wait_random lo hi k t g) = Inr v \<and> lo \<le> v \<and> v \<le> hi" if "lo \<le> hi"
    using random_randint_range [OF that, of g] by (auto simp add: wait_random_def)
  have empty: "fst (wait_random lo hi k t g) = Inl ValueError" if "hi < lo"
    using that by (simp add: wait_random_def random_randint_def)
  from none incr expo fixed rand empty show ?thesis
    by blast
qed

theorem wait_strategies_delay_witness:
  "(0 :: int) \<le> 10
   \<and> (\<exists>v. fst (wait_random 0 10 1 0 (\<lambda>n. 1 / 2)) = Inr v \<and> 0 \<le> v \<and> v \<le> 10)
   \<and> (1 :: int) < 5
   \<and> fst (wait_random 5 1 1 0 (\<lambda>n. 1 / 2)) = Inl ValueError
   \<and> wait_fixed 100 1 0 (\<lambda>n. 1 / 2) = (Inr 100, \<lambda>n. 1 / 2)"
  using wait_strategies_delay [where k = 1 and t = 0 and g = "\<lambda>n. 1 / 2" and dur = 100
      and lo = 0 and hi = 10]
    wait_strategies_delay [where k = 1 and t = 0 and g = "\<lambda>n. 1 / 2" and lo = 5 and hi = 1]
  by simp

subsection \<open>The reject strategy\<close>

text \<open>
  C8: the reject strategy built with \<open>retry_on_exception=None\<close> and
  \<open>retry_on_result=None\<close>, by \<^verbatim>\<open>_select_reject_strategy\<close> and so by every \<^verbatim>\<open>Retrying\<close>
  constructed with these defaults, returns false for every Attempt that holds a returned
  value and true for every Attempt that holds a captured exception.
\<close>

theorem default_reject_strategy:
  "select_reject_strategy isinstance None None (Attempt (Returned v) n) = False
   \<and> select_reject_strategy isinstance None None (Attempt (ExcInfo exc) n) = True
   \<and> should_reject (Retrying_init isinstance stop_arg wait_arg None None wrap jitter_max before after)
        (Attempt (Returned v) n) = False
   \<and> should_reject (Retrying_init isinstance stop_arg wait_arg None None wrap jitter_max before after)
        (Attempt (ExcInfo exc) n) = True"
  by (simp add: Retrying_init_def select_reject_strategy_def MaybeReject_def
      never_reject_def always_reject_def)

text \<open>
  C9: the decision of the composed reject strategy on an Attempt that holds a captured
  exception is \<open>retry_on_exception\<close> applied to that exception, the same for any two
  choices of \<open>retry_on_result\<close>; its decision on an Attempt that holds a returned value is
  \<open>retry_on_result\<close> applied to that value, the same for any two choices of
  \<open>retry_on_exception\<close>. This holds of \<^verbatim>\<open>_MaybeReject\<close> itself and of the strategy
  \<^verbatim>\<open>_select_reject_strategy\<close> builds.
\<close>

theorem reject_strategy_one_predicate:
  "MaybeReject roe ror1 (Attempt (ExcInfo exc) n) = MaybeReject roe ror2 (Attempt (ExcInfo exc) n)
   \<and> MaybeReject roe ror1 (Attempt (ExcInfo exc) n) = (case roe of Some p \<Rightarrow> p exc | None \<Rightarrow> False)
   \<and> MaybeReject roe1 ror (Attempt (Returned v) n) = MaybeReject roe2 ror (Attempt (Returned v) n)
   \<and> MaybeReject roe1 ror (Attempt (Returned v) n) = (case ror of Some q \<Rightarrow> q v | None \<Rightarrow> False)
   \<and> select_reject_strategy isinstance arg ror1 (Attempt (ExcInfo exc) n)
       = select_reject_strategy isinstance arg ror2 (Attempt (ExcInfo exc) n)
   \<and> select_reject_strategy isinstance arg1 ror (Attempt (Returned v) n)
       = select_reject_strategy isinstance arg2 ror (Attempt (Returned v) n)"
  by (simp add: select_reject_strategy_def MaybeReject_def split: option.split)

subsection \<open>One pass of the loop\<close>

lemmas controller_defs = iteration_def Retrying_init_def run_hook_def try_attempt_def
  select_reject_strategy_def MaybeReject_def always_reject_def never_reject_def Attempt_get_def
  time_ms_def stop_after_attempt_def compute_sleep_def wait_none_def wait_fixed_def time_sleep_def
  has_exception_def




lemma iteration_accepted:
  assumes "try_attempt fn n (run_hook (before_attempts r) BeforeAttempt n w) = (a, w2)"
    and "\<not> should_reject r a"
  shows "iteration r fn st n w = (Some (Attempt_get a (wrap_exception r)), w2)"
  using assms by (simp add: iteration_def)


lemma call_loop_done:
  "iteration r fn st n w = (Some res, w') \<Longrightarrow> call_loop r fn st n w = Some (res, w')"
  by (subst call_loop.simps) simp






subsection \<open>Retrying.call\<close>

text \<open>
  C1: for every operation that raises on its first two invocations and returns \<open>V\<close> on
  the third, \<^verbatim>\<open>Retrying(stop=stop_after_attempt(5), wait=wait_none()).call\<close>, with the
  defaults otherwise, returns \<open>V\<close> to the caller, and the operation has been invoked
  exactly 3 times (it is left in the state its third invocation gave).
\<close>

theorem call_succeeds_on_third_attempt:
  assumes "fn (op_state w) = (Inl e1, s1)" and "fn s1 = (Inl e2, s2)" and "fn s2 = (Inr V, s3)"
  shows "\<exists>w'. call (Retrying_init isinstance (Some (stop_after_attempt 5)) (Some wait_none)
                    None None False None None None) fn w = Some (Inr V, w')
           \<and> invocations w' = invocations w + 3 \<and> op_state w' = s3"
  unfolding call_def
  apply (simp add: time_ms_def)
  apply (subst call_loop.simps)
  apply (simp add: controller_defs assms)
  apply (subst call_loop.simps)
  apply (simp add: controller_defs assms)
  apply (subst call_loop.simps)
  apply (simp add: controller_defs assms invocations_def)
  done

theorem call_succeeds_on_third_attempt_witness:
  "\<exists>w'. call (Retrying_init (\<lambda>e t. True) (Some (stop_after_attempt 5)) (Some wait_none)
                    (None :: (string, unit) retry_on_exception_arg option) None False None None None)
            (\<lambda>s. (if s < 2 then Inl ''boom'' else Inr (42 :: int), Suc s))
            \<lparr>op_state = 0, clock = (\<lambda>n. int n), rng = (\<lambda>n. 0), trace = []\<rparr> = Some (Inr 42, w')
           \<and> invocations w' = 3 \<and> op_state w' = 3"
  using call_succeeds_on_third_attempt
     [where fn = "\<lambda>s. (if s < 2 then Inl ''boom'' else Inr (42 :: int), Suc s)"
      and w = "\<lparr>op_state = 0, clock = (\<lambda>n. int n), rng = (\<lambda>n. 0), trace = []\<rparr>"
      and ?e1.0 = "''boom''" and ?s1.0 = 1 and ?e2.0 = "''boom''" and ?s2.0 = 2 and V = 42
      and ?s3.0 = 3 and isinstance = "\<lambda>e t. True"]
  by (simp add: invocations_def)

text \<open>
  C2: for every operation that raises \<open>ErrorX\<close> on every invocation,
  \<^verbatim>\<open>Retrying(stop=stop_after_attempt(3), wrap_exception=False).call\<close> (any
  \<open>retry_on_result\<close>, the defaults otherwise) invokes the operation exactly 3 times and
  then raises \<open>ErrorX\<close> itself again, not a \<^verbatim>\<open>RetryError\<close>.
\<close>

theorem exhaustion_reraises_original_error:
  assumes "\<forall>s. fst (fn s) = Inl ErrorX"
  shows "\<exists>w'. call (Retrying_init isinstance (Some (stop_after_attempt 3)) (Some wait_none)
                    None ror False None None None) fn w = Some (Inl (Reraise ErrorX), w')
           \<and> invocations w' = invocations w + 3"
  unfolding call_def
  apply (simp add: time_ms_def)
  apply (subst call_loop.simps)
  apply (simp add: controller_defs assms split_beta)
  apply (subst call_loop.simps)
  apply (simp add: controller_defs assms split_beta)
  apply (subst call_loop.simps)
  apply (simp add: controller_defs assms invocations_def split_beta)
  done

theorem exhaustion_reraises_original_error_witness:
  "(\<forall>s :: nat. fst (Inl ''ErrorX'' :: string + int, Suc s) = Inl ''ErrorX'')
   \<and> (\<exists>w'. call (Retrying_init (\<lambda>e t. True) (Some (stop_after_attempt 3)) (Some wait_none)
                    (None :: (string, unit) retry_on_exception_arg option) None False None None None)
            (\<lambda>s. (Inl ''ErrorX'' :: string + int, Suc s))
            \<lparr>op_state = 0, clock = (\<lambda>n. int n), rng = (\<lambda>n. 0), trace = []\<rparr>
          = Some (Inl (Reraise ''ErrorX''), w')
        \<and> invocations w' = 3)"
  using exhaustion_reraises_original_error
     [where fn = "\<lambda>s :: nat. (Inl ''ErrorX'' :: string + int, Suc s)" and ErrorX = "''ErrorX''"
      and w = "\<lparr>op_state = 0, clock = (\<lambda>n. int n), rng = (\<lambda>n. 0), trace = []\<rparr>"
      and isinstance = "\<lambda>e t. True" and ror = None]
  by (simp add: invocations_def)



text \<open>
  C4, as the specification states it, fails: \<^verbatim>\<open>call\<close> returns
  \<^verbatim>\<open>attempt.get(self._wrap_exception)\<close>, and \<^verbatim>\<open>Attempt.get\<close> wraps the Attempt in a
  \<^verbatim>\<open>RetryError\<close> when the flag is set. With \<open>retry_on_exception\<close> a predicate that
  accepts every exception and \<open>wrap_exception=True\<close>, an operation that raises \<open>ErrorX\<close>
  makes \<^verbatim>\<open>call\<close> raise \<^verbatim>\<open>RetryError\<close> at the first attempt, not \<open>ErrorX\<close>.
\<close>

theorem accepted_failure_wrapped_counterexample:
  "map_option fst
     (call (Retrying_init (\<lambda>e t. False) None (Some wait_none)
              (Some (ExceptionPredicate (\<lambda>e. False) :: (string, unit) retry_on_exception_arg))
              None True None None None
            :: (unit, string, unit) Retrying)
        (\<lambda>s. (Inl ''ErrorX'', s))
        \<lparr>op_state = (), clock = (\<lambda>n. 0), rng = (\<lambda>n. 0), trace = []\<rparr>)
   = Some (Inl (RetryError (Attempt (ExcInfo ''ErrorX'') 1)))
   \<and> should_reject (Retrying_init (\<lambda>e t. False) None (Some wait_none)
              (Some (ExceptionPredicate (\<lambda>e. False) :: (string, unit) retry_on_exception_arg))
              None True None None None
            :: (unit, string, unit) Retrying) (Attempt (ExcInfo ''ErrorX'') 1) = False"
  apply (simp add: call_def time_ms_def)
  apply (subst call_loop.simps)
  apply (simp add: controller_defs)
  done

text \<open>
  C4 (amended): for every Attempt on which the reject strategy returns false,
  \<^verbatim>\<open>call\<close> ends at once (no hook after the attempt, no reading of the clock, no sleep, no
  further invocation): a returned value is returned to the caller; a captured exception
  is raised again unchanged when \<open>wrap_exception\<close> is false, and is raised inside a
  \<^verbatim>\<open>RetryError\<close> that holds the Attempt when \<open>wrap_exception\<close> is true.
\<close>

theorem accepted_attempt_propagates:
  assumes "try_attempt fn n (run_hook (before_attempts r) BeforeAttempt n w) = (a, w2)"
    and "\<not> should_reject r a"
  shows "call_loop r fn st n w =
     Some ((case Attempt_value a of
              Returned v \<Rightarrow> Inr v
            | ExcInfo exc \<Rightarrow> if wrap_exception r then Inl (RetryError a) else Inl (Reraise exc)), w2)"
proof -
  have "iteration r fn st n w = (Some (Attempt_get a (wrap_exception r)), w2)"
    using assms by (rule iteration_accepted)
  then have "call_loop r fn st n w = Some (Attempt_get a (wrap_exception r), w2)"
    by (rule call_loop_done)
  then show ?thesis
    by (simp add: Attempt_get_def split: held.split)
qed

theorem accepted_attempt_propagates_witness:
  "(let r = Retrying_init (\<lambda>e t. False) None (Some wait_none)
              (Some (ExceptionPredicate (\<lambda>e. False) :: (string, unit) retry_on_exception_arg))
              None False None None None
            :: (int, string, nat) Retrying;
        w = \<lparr>op_state = 0, clock = (\<lambda>n. 0), rng = (\<lambda>n. 0), trace = []\<rparr>;
        w2 = \<lparr>op_state = 1, clock = (\<lambda>n. 0), rng = (\<lambda>n. 0), trace = [Invoked]\<rparr>
    in \<not> should_reject r (Attempt (ExcInfo ''ErrorX'') 1)
       \<and> call_loop r (\<lambda>s. (Inl ''ErrorX'', Suc s)) 0 1 w = Some (Inl (Reraise ''ErrorX''), w2)
       \<and> \<not> should_reject r (Attempt (Returned 7) 1)
       \<and> call_loop r (\<lambda>s. (Inr 7, Suc s)) 0 1 w = Some (Inr 7, w2))"
proof -
  let ?r = "Retrying_init (\<lambda>e t. False) None (Some wait_none)
              (Some (ExceptionPredicate (\<lambda>e. False) :: (string, unit) retry_on_exception_arg))
              None False None None None
            :: (int, string, nat) Retrying"
  let ?w = "\<lparr>op_state = 0 :: nat, clock = (\<lambda>n. 0), rng = (\<lambda>n. 0), trace = []\<rparr>"
  let ?w2 = "\<lparr>op_state = 1 :: nat, clock = (\<lambda>n. 0), rng = (\<lambda>n. 0), trace = [Invoked]\<rparr>"
  have t1: "try_attempt (\<lambda>s. (Inl ''ErrorX'', Suc s)) 1 (run_hook (before_attempts ?r) BeforeAttempt 1 ?w)
      = (Attempt (ExcInfo ''ErrorX'') 1, ?w2)"
    by (simp add: try_attempt_def run_hook_def Retrying_init_def)
  have a1: "\<not> should_reject ?r (Attempt (ExcInfo ''ErrorX'') 1)"
    by (simp add: Retrying_init_def select_reject_strategy_def MaybeReject_def)
  have t2: "try_attempt (\<lambda>s. (Inr 7, Suc s)) 1 (run_hook (before_attempts ?r) BeforeAttempt 1 ?w)
      = (Attempt (Returned 7) 1, ?w2)"
    by (simp add: try_attempt_def run_hook_def Retrying_init_def)
  have a2: "\<not> should_reject ?r (Attempt (Returned 7) 1)"
    by (simp add: Retrying_init_def select_reject_strategy_def MaybeReject_def never_reject_def)
  show ?thesis
    using accepted_attempt_propagates [OF t1 a1, of 0] accepted_attempt_propagates [OF t2 a2, of 0]
      a1 a2
    by (simp add: Retrying_init_def)
qed



end
